theory Spec2Isabelle
  imports Main "HOL-Library.Word"
begin

section \<open>The fleet client of inago: data model\<close>

text \<open>
  Shallow embedding of \<^verbatim>\<open>fleet/fleet.go\<close>. The remote scheduler is reached through the
  interface \<^verbatim>\<open>client.API\<close> of the fleet library; every call of that interface is a
  transition on an explicit remote state of type \<open>'r\<close>, so that the order and the number of
  the requests a method issues are part of its model.
\<close>

subsection \<open>Errors\<close>

text \<open>
  \<open>Errorf\<close> is \<^verbatim>\<open>fmt.Errorf\<close> (format string and arguments, unformatted), \<open>External\<close> an
  error value handed back by a library outside this repository, \<open>Panic\<close> a run-time panic.
\<close>

datatype error =
    unitNotFoundError
  | ipNotFoundError
  | Errorf string "string list"
  | External string
  | Panic string
  | Mask error

text \<open>
  Modelled from the spec: \<^verbatim>\<open>maskAny\<close>, \<^verbatim>\<open>unitNotFoundError\<close>, \<^verbatim>\<open>ipNotFoundError\<close> and
  \<^verbatim>\<open>IsUnitNotFound\<close> are declared in the package's error file, which is not among the
  sources. Section 4.4 of the specification: every failure is wrapped in a uniform envelope
  that preserves the underlying cause, and callers test for \<open>UnitNotFound\<close> on the cause.
\<close>

definition maskAny :: "error \<Rightarrow> error" where
  "maskAny err = Mask err"

fun Cause :: "error \<Rightarrow> error" where
  "Cause (Mask err) = Cause err"
| "Cause err = err"

definition IsUnitNotFound :: "error \<Rightarrow> bool" where
  "IsUnitNotFound err = (Cause err = unitNotFoundError)"

definition IsIPNotFound :: "error \<Rightarrow> bool" where
  "IsIPNotFound err = (Cause err = ipNotFoundError)"

subsection \<open>Records of the scheduler's schema\<close>

record schema_UnitOption =
  Section :: string
  Name :: string
  Value :: string

record schema_Unit =
  Name :: string
  Options :: "schema_UnitOption list"
  CurrentState :: string
  DesiredState :: string

record schema_UnitState =
  Name :: string
  MachineID :: string
  SystemdActiveState :: string

record schema_Machine =
  ID :: string
  PublicIP :: string

text \<open>\<^verbatim>\<open>net.IP\<close> is a byte slice; the nil slice is the empty list.\<close>

type_synonym net_IP = "8 word list"

subsection \<open>Constants and types of the package\<close>

definition unitStateInactive :: string where
  "unitStateInactive = ''inactive''"

definition unitStateLoaded :: string where
  "unitStateLoaded = ''loaded''"

definition unitStateLaunched :: string where
  "unitStateLaunched = ''launched''"

text \<open>
  \<^verbatim>\<open>net.Dial(network, address)\<close> is recorded as the connection request it makes; a
  transport is the default one or one with its own dial function.
\<close>

datatype net_Conn = net_Dial string string

datatype http_RoundTripper =
    http_DefaultTransport
  | http_Transport "string \<Rightarrow> string \<Rightarrow> net_Conn"

record http_Client =
  Transport :: "http_RoundTripper option"

record url_URL =
  Scheme :: string
  Host :: string
  Path :: string

text \<open>\<open>Client\<close> is a pointer in the source: \<open>None\<close> is the nil pointer.\<close>

record Config =
  Client :: "http_Client option"
  Endpoint :: url_URL

record MachineStatus =
  ID :: string
  IP :: net_IP
  SystemdActive :: string

record UnitStatus =
  Current :: string
  Desired :: string
  Machine :: "MachineStatus list"

text \<open>
  The methods of \<^verbatim>\<open>client.API\<close> that the package calls. A write returns the error, if any,
  and the next remote state; a read returns the collection or the error, and the next remote
  state.
\<close>

record 'r client_API =
  CreateUnit :: "schema_Unit \<Rightarrow> 'r \<Rightarrow> error option \<times> 'r"
  DestroyUnit :: "string \<Rightarrow> 'r \<Rightarrow> error option \<times> 'r"
  SetUnitTargetState :: "string \<Rightarrow> string \<Rightarrow> 'r \<Rightarrow> error option \<times> 'r"
  Units :: "'r \<Rightarrow> (error + schema_Unit list) \<times> 'r"
  UnitStates :: "'r \<Rightarrow> (error + schema_UnitState list) \<times> 'r"
  Machines :: "'r \<Rightarrow> (error + schema_Machine list) \<times> 'r"

record 'r fleet =
  Config :: Config
  Client :: "'r client_API"

section \<open>Status aggregation\<close>

text \<open>
  \<^verbatim>\<open>ipFromUnitState\<close>: one fetch of the Machine collection, then the first machine with the
  unit state's machine ID. \<open>ParseIP\<close> is \<^verbatim>\<open>net.ParseIP\<close> of the standard library, taken as
  a parameter.
\<close>

definition ipFromUnitState ::
  "(string \<Rightarrow> net_IP) \<Rightarrow> 'r fleet \<Rightarrow> schema_UnitState \<Rightarrow> 'r \<Rightarrow> (error + net_IP) \<times> 'r" where
  "ipFromUnitState ParseIP f unitState r =
     (case Machines (fleet.Client f) r of
        (Inl err, r') \<Rightarrow> (Inl (maskAny err), r')
      | (Inr machineStates, r') \<Rightarrow>
          (case find (\<lambda>ms. MachineID unitState = schema_Machine.ID ms) machineStates of
             Some ms \<Rightarrow> (Inr (ParseIP (PublicIP ms)), r')
           | None \<Rightarrow> (Inl (maskAny ipNotFoundError), r')))"

text \<open>The loop of \<^verbatim>\<open>GetStatus\<close> over the unit states found, appending to \<open>ourUnitStatus\<close>.\<close>

fun GetStatus_aggregate ::
  "(string \<Rightarrow> net_IP) \<Rightarrow> 'r fleet \<Rightarrow> schema_UnitState list \<Rightarrow> UnitStatus \<Rightarrow> 'r
   \<Rightarrow> (error + UnitStatus) \<times> 'r" where
  "GetStatus_aggregate ParseIP f [] ourUnitStatus r = (Inr ourUnitStatus, r)"
| "GetStatus_aggregate ParseIP f (ffus # rest) ourUnitStatus r =
     (case ipFromUnitState ParseIP f ffus r of
        (Inl err, r') \<Rightarrow> (Inl (maskAny err), r')
      | (Inr ip, r') \<Rightarrow>
          GetStatus_aggregate ParseIP f rest
            (ourUnitStatus\<lparr>Machine := Machine ourUnitStatus @
               [\<lparr>ID = MachineID ffus, IP = ip, SystemdActive = SystemdActiveState ffus\<rparr>]\<rparr>) r')"

definition GetStatus ::
  "(string \<Rightarrow> net_IP) \<Rightarrow> 'r fleet \<Rightarrow> string \<Rightarrow> 'r \<Rightarrow> (error + UnitStatus) \<times> 'r" where
  "GetStatus ParseIP f name r =
     (case Units (fleet.Client f) r of
        (Inl err, r1) \<Rightarrow> (Inl (maskAny err), r1)
      | (Inr fleetUnits, r1) \<Rightarrow>
          (case find (\<lambda>fu. name = schema_Unit.Name fu) fleetUnits of
             None \<Rightarrow> (Inl (maskAny unitNotFoundError), r1)
           | Some foundFleetUnit \<Rightarrow>
               (case UnitStates (fleet.Client f) r1 of
                  (Inl err, r2) \<Rightarrow> (Inl (maskAny err), r2)
                | (Inr fleetUnitStates, r2) \<Rightarrow>
                    GetStatus_aggregate ParseIP f
                      (filter (\<lambda>fus. name = schema_UnitState.Name fus) fleetUnitStates)
                      \<lparr>Current = CurrentState foundFleetUnit,
                       Desired = DesiredState foundFleetUnit,
                       Machine = []\<rparr> r2)))"

text \<open>
  Following the spec's words (Section 4.3, step 4, and Section 9), for comparison with
  \<open>GetStatus\<close>: the variant that fetches the Machine collection once per call, when the
  aggregation step is reached, and resolves every unit state against that one collection.
  A failed fetch fails the call at once, as the other two fetches do.
\<close>

definition ipFromMachines ::
  "(string \<Rightarrow> net_IP) \<Rightarrow> schema_Machine list \<Rightarrow> schema_UnitState \<Rightarrow> error + net_IP" where
  "ipFromMachines ParseIP machineStates unitState =
     (case find (\<lambda>ms. MachineID unitState = schema_Machine.ID ms) machineStates of
        Some ms \<Rightarrow> Inr (ParseIP (PublicIP ms))
      | None \<Rightarrow> Inl (maskAny ipNotFoundError))"

fun aggregate_fetched ::
  "(string \<Rightarrow> net_IP) \<Rightarrow> schema_Machine list \<Rightarrow> schema_UnitState list \<Rightarrow> UnitStatus
   \<Rightarrow> error + UnitStatus" where
  "aggregate_fetched ParseIP machineStates [] ourUnitStatus = Inr ourUnitStatus"
| "aggregate_fetched ParseIP machineStates (ffus # rest) ourUnitStatus =
     (case ipFromMachines ParseIP machineStates ffus of
        Inl err \<Rightarrow> Inl (maskAny err)
      | Inr ip \<Rightarrow>
          aggregate_fetched ParseIP machineStates rest
            (ourUnitStatus\<lparr>Machine := Machine ourUnitStatus @
               [\<lparr>ID = MachineID ffus, IP = ip, SystemdActive = SystemdActiveState ffus\<rparr>]\<rparr>))"

definition GetStatus_fetch_once ::
  "(string \<Rightarrow> net_IP) \<Rightarrow> 'r fleet \<Rightarrow> string \<Rightarrow> 'r \<Rightarrow> (error + UnitStatus) \<times> 'r" where
  "GetStatus_fetch_once ParseIP f name r =
     (case Units (fleet.Client f) r of
        (Inl err, r1) \<Rightarrow> (Inl (maskAny err), r1)
      | (Inr fleetUnits, r1) \<Rightarrow>
          (case find (\<lambda>fu. name = schema_Unit.Name fu) fleetUnits of
             None \<Rightarrow> (Inl (maskAny unitNotFoundError), r1)
           | Some foundFleetUnit \<Rightarrow>
               (case UnitStates (fleet.Client f) r1 of
                  (Inl err, r2) \<Rightarrow> (Inl (maskAny err), r2)
                | (Inr fleetUnitStates, r2) \<Rightarrow>
                    (case Machines (fleet.Client f) r2 of
                       (Inl err, r3) \<Rightarrow> (Inl (maskAny err), r3)
                     | (Inr machineStates, r3) \<Rightarrow>
                         (aggregate_fetched ParseIP machineStates
                            (filter (\<lambda>fus. name = schema_UnitState.Name fus) fleetUnitStates)
                            \<lparr>Current = CurrentState foundFleetUnit,
                             Desired = DesiredState foundFleetUnit,
                             Machine = []\<rparr>, r3)))))"

text \<open>What a caller can tell apart: the status, or the cause of the error.\<close>

definition classified :: "error + UnitStatus \<Rightarrow> error + UnitStatus" where
  "classified res = (case res of Inl err \<Rightarrow> Inl (Cause err) | Inr status \<Rightarrow> Inr status)"

section \<open>Lifecycle operations\<close>

text \<open>
  \<open>NewUnitFile\<close> and \<open>MapUnitFileToSchemaUnitOptions\<close> are the unit-file parser and the
  schema mapper of the fleet library, taken as parameters.
\<close>

definition Submit ::
  "(string \<Rightarrow> error + 'u) \<Rightarrow> ('u \<Rightarrow> schema_UnitOption list) \<Rightarrow> 'r fleet \<Rightarrow> string \<Rightarrow> string
   \<Rightarrow> 'r \<Rightarrow> error option \<times> 'r" where
  "Submit NewUnitFile MapUnitFileToSchemaUnitOptions f name content r =
     (case NewUnitFile content of
        Inl err \<Rightarrow> (Some (maskAny err), r)
      | Inr unitFile \<Rightarrow>
          (case CreateUnit (fleet.Client f)
                  \<lparr>schema_Unit.Name = name,
                   Options = MapUnitFileToSchemaUnitOptions unitFile,
                   CurrentState = [],
                   DesiredState = ''loaded''\<rparr> r of
             (Some err, r') \<Rightarrow> (Some (maskAny err), r')
           | (None, r') \<Rightarrow> (None, r')))"

definition Start :: "'r fleet \<Rightarrow> string \<Rightarrow> 'r \<Rightarrow> error option \<times> 'r" where
  "Start f name r =
     (case SetUnitTargetState (fleet.Client f) name unitStateLaunched r of
        (Some err, r') \<Rightarrow> (Some (maskAny err), r')
      | (None, r') \<Rightarrow> (None, r'))"

definition Stop :: "'r fleet \<Rightarrow> string \<Rightarrow> 'r \<Rightarrow> error option \<times> 'r" where
  "Stop f name r =
     (case SetUnitTargetState (fleet.Client f) name unitStateLoaded r of
        (Some err, r') \<Rightarrow> (Some (maskAny err), r')
      | (None, r') \<Rightarrow> (None, r'))"

definition Destroy :: "'r fleet \<Rightarrow> string \<Rightarrow> 'r \<Rightarrow> error option \<times> 'r" where
  "Destroy f name r =
     (case DestroyUnit (fleet.Client f) name r of
        (Some err, r') \<Rightarrow> (Some (maskAny err), r')
      | (None, r') \<Rightarrow> (None, r'))"

section \<open>Client construction\<close>

text \<open>
  \<^verbatim>\<open>NewFleet\<close>. \<open>NewHTTPClient\<close> is \<^verbatim>\<open>client.NewHTTPClient\<close> of the fleet library, taken as
  a parameter; it is the only call of the constructor that leaves the package, so it runs
  on an explicit outside world \<open>'w\<close>. The switch yields the early error, or the rewritten
  configuration with the transport chosen (\<open>trans\<close> in the source). Writing the transport through the nil client
  pointer is a nil dereference.
\<close>

definition NewFleet ::
  "(http_Client \<Rightarrow> url_URL \<Rightarrow> 'w \<Rightarrow> (error + 'r client_API) \<times> 'w) \<Rightarrow> Config \<Rightarrow> 'w
   \<Rightarrow> (error + 'r fleet) \<times> 'w" where
  "NewFleet NewHTTPClient config w =
     (case
        (if Scheme (Endpoint config) = ''unix'' \<or> Scheme (Endpoint config) = ''file'' then
           if length (Host (Endpoint config)) > 0 then
             Inl (maskAny (Errorf ''unable to connect to host %q with scheme %q''
                    [Host (Endpoint config), Scheme (Endpoint config)]))
           else
             (let sockPath = Path (Endpoint config);
                  config = config\<lparr>Endpoint := (Endpoint config)\<lparr>Path := []\<rparr>\<rparr>;
                  config = config\<lparr>Endpoint := (Endpoint config)\<lparr>Scheme := ''http''\<rparr>\<rparr>;
                  config = config\<lparr>Endpoint := (Endpoint config)\<lparr>Host := ''domain-sock''\<rparr>\<rparr>
              in Inr (config, http_Transport (\<lambda>s t. net_Dial ''unix'' sockPath)))
         else if Scheme (Endpoint config) = ''http'' \<or> Scheme (Endpoint config) = ''https'' then
           Inr (config, http_DefaultTransport)
         else
           Inl (maskAny (Errorf ''invalid scheme in fleet endpoint: %s''
                  [Scheme (Endpoint config)])))
      of
        Inl err \<Rightarrow> (Inl err, w)
      | Inr (config, roundTripper) \<Rightarrow>
          (case Config.Client config of
             None \<Rightarrow> (Inl (Panic ''invalid memory address or nil pointer dereference''), w)
           | Some httpClient \<Rightarrow>
               (let httpClient = httpClient\<lparr>Transport := Some roundTripper\<rparr>;
                    config = config\<lparr>Config.Client := Some httpClient\<rparr>
                in case NewHTTPClient httpClient (Endpoint config) w of
                     (Inl err, w') \<Rightarrow> (Inl (maskAny err), w')
                   | (Inr client, w') \<Rightarrow>
                       (Inr \<lparr>Config = config, Client = client\<rparr>, w'))))"

section \<open>A remote scheduler for the examples\<close>

text \<open>
  Modelled from the spec: the scheduler service itself is outside the repository. Section 6
  lists its operations: create-unit, set-unit-desired-state (failing on an unknown unit),
  delete-unit, and the three listings. The remote state is the three collections; a listing
  returns its collection and leaves the state as it is.
\<close>

record cluster =
  units :: "schema_Unit list"
  unitStates :: "schema_UnitState list"
  machines :: "schema_Machine list"

definition remote :: "cluster client_API" where
  "remote =
     \<lparr>CreateUnit = (\<lambda>u r. (None, r\<lparr>units := units r @ [u]\<rparr>)),
      DestroyUnit =
        (\<lambda>name r. (None, r\<lparr>units := filter (\<lambda>u. schema_Unit.Name u \<noteq> name) (units r)\<rparr>)),
      SetUnitTargetState =
        (\<lambda>name target r.
           if find (\<lambda>u. schema_Unit.Name u = name) (units r) = None
           then (Some (External ''unit does not exist''), r)
           else (None, r\<lparr>units :=
                   map (\<lambda>u. if schema_Unit.Name u = name then u\<lparr>DesiredState := target\<rparr> else u)
                     (units r)\<rparr>)),
      Units = (\<lambda>r. (Inr (units r), r)),
      UnitStates = (\<lambda>r. (Inr (unitStates r), r)),
      Machines = (\<lambda>r. (Inr (machines r), r))\<rparr>"

text \<open>The desired state the scheduler holds for a unit name.\<close>

definition desiredOf :: "cluster \<Rightarrow> string \<Rightarrow> string option" where
  "desiredOf r name =
     map_option DesiredState (find (\<lambda>u. schema_Unit.Name u = name) (units r))"

text \<open>The same scheduler with its machine listing out of reach.\<close>

definition remote_machines_down :: "cluster client_API" where
  "remote_machines_down =
     remote\<lparr>Machines := (\<lambda>r. (Inl (External ''connection refused''), r))\<rparr>"

text \<open>
  A cluster: \<open>web\<close> runs on two machines, one of them with an unreadable address;
  \<open>idle\<close> is not scheduled; \<open>lost\<close> is scheduled on a machine that is not listed; \<open>ghost\<close>
  has a unit state but no unit.
\<close>

definition exampleCluster :: cluster where
  "exampleCluster =
     \<lparr>units =
        [\<lparr>schema_Unit.Name = ''web'', Options = [], CurrentState = ''launched'', DesiredState = ''launched''\<rparr>,
         \<lparr>schema_Unit.Name = ''idle'', Options = [], CurrentState = ''inactive'', DesiredState = ''loaded''\<rparr>,
         \<lparr>schema_Unit.Name = ''lost'', Options = [], CurrentState = ''loaded'', DesiredState = ''launched''\<rparr>],
      unitStates =
        [\<lparr>Name = ''web'', MachineID = ''m2'', SystemdActiveState = ''failed''\<rparr>,
         \<lparr>Name = ''ghost'', MachineID = ''m9'', SystemdActiveState = ''active''\<rparr>,
         \<lparr>Name = ''web'', MachineID = ''m1'', SystemdActiveState = ''active''\<rparr>,
         \<lparr>Name = ''lost'', MachineID = ''m9'', SystemdActiveState = ''active''\<rparr>],
      machines =
        [\<lparr>schema_Machine.ID = ''m1'', PublicIP = ''10.0.0.1''\<rparr>,
         \<lparr>schema_Machine.ID = ''m2'', PublicIP = ''not-an-ip''\<rparr>]\<rparr>"

text \<open>
  A second cluster: \<open>web\<close> has two unit states, the second one on the machine \<open>m9\<close>, which
  is not listed.
\<close>

definition exampleCluster_unlisted :: cluster where
  "exampleCluster_unlisted =
     \<lparr>units =
        [\<lparr>schema_Unit.Name = ''web'', Options = [], CurrentState = ''launched'',
          DesiredState = ''launched''\<rparr>],
      unitStates =
        [\<lparr>Name = ''web'', MachineID = ''m1'', SystemdActiveState = ''active''\<rparr>,
         \<lparr>Name = ''web'', MachineID = ''m9'', SystemdActiveState = ''active''\<rparr>],
      machines =
        [\<lparr>schema_Machine.ID = ''m1'', PublicIP = ''10.0.0.1''\<rparr>]\<rparr>"

definition exampleConfig :: Config where
  "exampleConfig =
     \<lparr>Config.Client = Some \<lparr>Transport = None\<rparr>,
      Endpoint = \<lparr>Scheme = ''unix'', Host = [], Path = ''/var/run/fleet.sock''\<rparr>\<rparr>"

definition exampleFleet :: "cluster fleet" where
  "exampleFleet = \<lparr>Config = exampleConfig, Client = remote\<rparr>"

definition exampleFleet_machines_down :: "cluster fleet" where
  "exampleFleet_machines_down = \<lparr>Config = exampleConfig, Client = remote_machines_down\<rparr>"

text \<open>
  Stand-ins for the library functions in the examples: a parser of addresses that knows
  \<open>10.0.0.1\<close> (in the 16-byte form) and answers nil otherwise, a unit-file parser that
  rejects the empty text, and a client constructor that hands out \<open>remote\<close>.
\<close>

definition exampleParseIP :: "string \<Rightarrow> net_IP" where
  "exampleParseIP s =
     (if s = ''10.0.0.1'' then [0, 0, 0, 0, 0, 0, 0, 0, 0, 0, 255, 255, 10, 0, 0, 1] else [])"

definition exampleNewUnitFile :: "string \<Rightarrow> error + string" where
  "exampleNewUnitFile content =
     (if content = [] then Inl (External ''unable to find section'') else Inr content)"

definition exampleMapUnitFile :: "string \<Rightarrow> schema_UnitOption list" where
  "exampleMapUnitFile unitFile = [\<lparr>Section = ''Service'', schema_UnitOption.Name = ''ExecStart'', Value = unitFile\<rparr>]"

definition exampleNewHTTPClient ::
  "http_Client \<Rightarrow> url_URL \<Rightarrow> nat \<Rightarrow> (error + cluster client_API) \<times> nat" where
  "exampleNewHTTPClient httpClient ep w = (Inr remote, Suc w)"

section \<open>Lemmas on the aggregation loop\<close>

lemma aggregate_length:
  "GetStatus_aggregate ParseIP f ss acc r = (Inr status, r') \<Longrightarrow>
     length (Machine status) = length (Machine acc) + length ss"
proof (induction ss arbitrary: acc r)
  case Nil
  then show ?case by simp
next
  case (Cons s ss)
  then show ?case
    by (fastforce split: prod.splits sum.splits)
qed


lemma aggregate_dangling:
  assumes "Machines (fleet.Client f) r = (Inr machineStates, r)"
      and "fus \<in> set ss"
      and "MachineID fus \<notin> schema_Machine.ID ` set machineStates"
  shows "GetStatus_aggregate ParseIP f ss acc r = (Inl (maskAny (maskAny ipNotFoundError)), r)"
  using assms(2)
proof (induction ss arbitrary: acc)
  case Nil
  then show ?case by simp
next
  case (Cons s ss)
  show ?case
  proof (cases "find (\<lambda>ms. MachineID s = schema_Machine.ID ms) machineStates")
    case None
    then show ?thesis
      by (simp add: ipFromUnitState_def assms(1))
  next
    case (Some m)
    then have "MachineID s \<in> schema_Machine.ID ` set machineStates"
      by (auto simp: find_Some_iff)
    with assms(3) have "fus \<noteq> s" by auto
    with Cons.prems have "fus \<in> set ss" by simp
    from Cons.IH [OF this] show ?thesis
      by (simp add: ipFromUnitState_def assms(1) Some)
  qed
qed

lemma aggregate_as_fetched:
  assumes "Machines (fleet.Client f) r = (Inr machineStates, r)"
  shows "GetStatus_aggregate ParseIP f ss acc r = (aggregate_fetched ParseIP machineStates ss acc, r)"
proof (induction ss arbitrary: acc)
  case Nil
  then show ?case by simp
next
  case (Cons s ss)
  then show ?case
    by (simp add: ipFromUnitState_def ipFromMachines_def assms split: option.splits)
qed



lemma find_map_desired:
  "find (\<lambda>u. schema_Unit.Name u = name)
     (map (\<lambda>u. if schema_Unit.Name u = name then u\<lparr>DesiredState := target\<rparr> else u) us)
   = map_option (\<lambda>u. u\<lparr>DesiredState := target\<rparr>) (find (\<lambda>u. schema_Unit.Name u = name) us)"
  by (induction us) auto

lemma remote_SetUnitTargetState:
  "SetUnitTargetState remote name target r = (None, r') \<Longrightarrow> desiredOf r' name = Some target"
  by (auto simp: remote_def desiredOf_def find_map_desired split: if_splits)

lemma Cause_maskAny: "Cause (maskAny err) = Cause err"
  by (simp add: maskAny_def)

section \<open>Status of a unit on two machines\<close>

text \<open>
  C1, as stated, at the unit \<open>web\<close> of the cluster with the unlisted machine: the unit is in
  the Unit collection and exactly two unit states carry its name, yet \<^verbatim>\<open>GetStatus\<close> returns
  no status, because the second unit state refers to machine \<open>m9\<close>, which no Machine record
  has, and the call fails with the masked \<open>ipNotFoundError\<close>.
\<close>

theorem GetStatus_two_machines_counterexample:
  "units exampleCluster_unlisted =
     [\<lparr>schema_Unit.Name = ''web'', Options = [], CurrentState = ''launched'',
       DesiredState = ''launched''\<rparr>]
   \<and> unitStates exampleCluster_unlisted =
     [\<lparr>schema_UnitState.Name = ''web'', MachineID = ''m1'', SystemdActiveState = ''active''\<rparr>,
      \<lparr>schema_UnitState.Name = ''web'', MachineID = ''m9'', SystemdActiveState = ''active''\<rparr>]
   \<and> ''m9'' \<notin> schema_Machine.ID ` set (machines exampleCluster_unlisted)
   \<and> GetStatus exampleParseIP exampleFleet ''web'' exampleCluster_unlisted
       = (Inl (maskAny (maskAny ipNotFoundError)), exampleCluster_unlisted)"
  by (simp add: GetStatus_def ipFromUnitState_def exampleFleet_def remote_def
        exampleCluster_unlisted_def)

text \<open>
  C1, amended. The Unit collection is fetched and its first unit of the requested name is
  \<open>fu\<close>; the UnitState collection is fetched and exactly the two records \<open>fus1\<close>, \<open>fus2\<close>, in
  fetch order, carry the name; the two fetches of the Machine collection that follow succeed,
  and the first machine with the machine ID of \<open>fus1\<close> (of \<open>fus2\<close>) is \<open>ms1\<close> (\<open>ms2\<close>). Then
  \<^verbatim>\<open>GetStatus\<close> returns a status whose Machine sequence has the two entries in that order,
  each with the parsed public IP of its machine, and whose Current and Desired are the
  current and desired state of \<open>fu\<close>.
\<close>

theorem GetStatus_two_machines:
  assumes "Units (fleet.Client f) r = (Inr fleetUnits, r1)"
      and "find (\<lambda>fu. name = schema_Unit.Name fu) fleetUnits = Some fu"
      and "UnitStates (fleet.Client f) r1 = (Inr fleetUnitStates, r2)"
      and "filter (\<lambda>fus. name = schema_UnitState.Name fus) fleetUnitStates = [fus1, fus2]"
      and "Machines (fleet.Client f) r2 = (Inr machines1, r3)"
      and "find (\<lambda>ms. MachineID fus1 = schema_Machine.ID ms) machines1 = Some ms1"
      and "Machines (fleet.Client f) r3 = (Inr machines2, r4)"
      and "find (\<lambda>ms. MachineID fus2 = schema_Machine.ID ms) machines2 = Some ms2"
  shows "GetStatus ParseIP f name r =
           (Inr \<lparr>Current = CurrentState fu, Desired = DesiredState fu,
                 Machine =
                   [\<lparr>ID = MachineID fus1, IP = ParseIP (PublicIP ms1),
                     SystemdActive = SystemdActiveState fus1\<rparr>,
                    \<lparr>ID = MachineID fus2, IP = ParseIP (PublicIP ms2),
                     SystemdActive = SystemdActiveState fus2\<rparr>]\<rparr>, r4)"
  using assms by (simp add: GetStatus_def ipFromUnitState_def)

text \<open>The unit \<open>web\<close> of the example cluster, scheduled on \<open>m2\<close> and \<open>m1\<close>.\<close>

theorem GetStatus_two_machines_witness:
  "GetStatus exampleParseIP exampleFleet ''web'' exampleCluster =
     (Inr \<lparr>Current = ''launched'', Desired = ''launched'',
           Machine =
             [\<lparr>ID = ''m2'', IP = [], SystemdActive = ''failed''\<rparr>,
              \<lparr>ID = ''m1'', IP = [0, 0, 0, 0, 0, 0, 0, 0, 0, 0, 255, 255, 10, 0, 0, 1],
                SystemdActive = ''active''\<rparr>]\<rparr>, exampleCluster)"
  using GetStatus_two_machines [of exampleFleet exampleCluster "units exampleCluster" exampleCluster
      "''web''" "hd (units exampleCluster)" "unitStates exampleCluster" exampleCluster
      "unitStates exampleCluster ! 0" "unitStates exampleCluster ! 2"
      "machines exampleCluster" exampleCluster "machines exampleCluster ! 1"
      "machines exampleCluster" exampleCluster "machines exampleCluster ! 0" exampleParseIP]
  by (simp add: exampleFleet_def remote_def exampleCluster_def exampleParseIP_def)

section \<open>Unknown units\<close>

text \<open>
  C2. When the Unit collection is fetched and holds no unit of the requested name,
  \<^verbatim>\<open>GetStatus\<close> fails with the masked \<open>unitNotFoundError\<close>, which \<open>IsUnitNotFound\<close> recognises;
  it stops in the remote state reached by the Units fetch, so the UnitState and Machine
  collections are not even requested and no status, empty or not, is returned.
\<close>

theorem GetStatus_unit_absent:
  assumes "Units (fleet.Client f) r = (Inr fleetUnits, r1)"
      and "name \<notin> schema_Unit.Name ` set fleetUnits"
  shows "GetStatus ParseIP f name r = (Inl (maskAny unitNotFoundError), r1)
         \<and> IsUnitNotFound (maskAny unitNotFoundError)"
proof -
  from assms(2) have "find (\<lambda>fu. name = schema_Unit.Name fu) fleetUnits = None"
    by (auto simp: find_None_iff)
  with assms(1) show ?thesis
    by (simp add: GetStatus_def IsUnitNotFound_def maskAny_def)
qed

text \<open>The name \<open>ghost\<close> has a unit state and no unit in the example cluster.\<close>

theorem GetStatus_unit_absent_witness:
  "GetStatus exampleParseIP exampleFleet ''ghost'' exampleCluster
     = (Inl (maskAny unitNotFoundError), exampleCluster)
   \<and> IsUnitNotFound (maskAny unitNotFoundError)"
proof -
  have fetched: "Units (fleet.Client exampleFleet) exampleCluster
                   = (Inr (units exampleCluster), exampleCluster)"
    by (simp add: exampleFleet_def remote_def)
  have absent: "''ghost'' \<notin> schema_Unit.Name ` set (units exampleCluster)"
    by (simp add: exampleCluster_def)
  show ?thesis
    using GetStatus_unit_absent [OF fetched absent] by simp
qed

section \<open>Unresolvable machine references\<close>

text \<open>
  C3, as stated, at the name \<open>ghost\<close> of the example cluster: a unit state of that name
  refers to machine \<open>m9\<close>, which no Machine record has, yet the call fails with
  \<open>unitNotFoundError\<close>, not with \<open>ipNotFoundError\<close>, because the unit lookup comes first.
\<close>

theorem GetStatus_machine_missing_counterexample:
  "\<lparr>Name = ''ghost'', MachineID = ''m9'', SystemdActiveState = ''active''\<rparr>
       \<in> set (unitStates exampleCluster)
   \<and> ''m9'' \<notin> schema_Machine.ID ` set (machines exampleCluster)
   \<and> GetStatus exampleParseIP exampleFleet ''ghost'' exampleCluster
       = (Inl (maskAny unitNotFoundError), exampleCluster)
   \<and> \<not> IsIPNotFound (maskAny unitNotFoundError)"
  by (simp add: GetStatus_def exampleFleet_def remote_def exampleCluster_def
        IsIPNotFound_def maskAny_def)

text \<open>
  C3, amended. The Unit collection is fetched and holds a unit of the requested name, the
  UnitState collection is fetched, and the Machine fetch returns the collection and leaves
  the remote state as it is. If some unit state of that name refers to a machine ID that no
  Machine record has, \<^verbatim>\<open>GetStatus\<close> fails with the masked \<open>ipNotFoundError\<close> and returns no
  status, whatever the other unit states of that name resolve to.
\<close>

theorem GetStatus_machine_missing:
  assumes "Units (fleet.Client f) r = (Inr fleetUnits, r1)"
      and "find (\<lambda>fu. name = schema_Unit.Name fu) fleetUnits = Some fu"
      and "UnitStates (fleet.Client f) r1 = (Inr fleetUnitStates, r2)"
      and "Machines (fleet.Client f) r2 = (Inr machineStates, r2)"
      and "fus \<in> set fleetUnitStates"
      and "name = schema_UnitState.Name fus"
      and "MachineID fus \<notin> schema_Machine.ID ` set machineStates"
  shows "GetStatus ParseIP f name r = (Inl (maskAny (maskAny ipNotFoundError)), r2)
         \<and> IsIPNotFound (maskAny (maskAny ipNotFoundError))"
proof -
  from assms(5,6)
  have "fus \<in> set (filter (\<lambda>fus. name = schema_UnitState.Name fus) fleetUnitStates)"
    by simp
  from aggregate_dangling [OF assms(4) this assms(7)] assms(1,2,3)
  show ?thesis
    by (simp add: GetStatus_def IsIPNotFound_def maskAny_def)
qed

text \<open>The unit \<open>lost\<close> of the example cluster is scheduled on the unlisted machine \<open>m9\<close>.\<close>

theorem GetStatus_machine_missing_witness:
  "GetStatus exampleParseIP exampleFleet ''lost'' exampleCluster
     = (Inl (maskAny (maskAny ipNotFoundError)), exampleCluster)
   \<and> IsIPNotFound (maskAny (maskAny ipNotFoundError))"
proof -
  let ?fu = "\<lparr>schema_Unit.Name = ''lost'', Options = [], CurrentState = ''loaded'',
              DesiredState = ''launched''\<rparr>"
  let ?fus = "\<lparr>schema_UnitState.Name = ''lost'', MachineID = ''m9'',
               SystemdActiveState = ''active''\<rparr>"
  have units: "Units (fleet.Client exampleFleet) exampleCluster
                 = (Inr (units exampleCluster), exampleCluster)"
    by (simp add: exampleFleet_def remote_def)
  have found: "find (\<lambda>fu. ''lost'' = schema_Unit.Name fu) (units exampleCluster) = Some ?fu"
    by (simp add: exampleCluster_def)
  have states: "UnitStates (fleet.Client exampleFleet) exampleCluster
                  = (Inr (unitStates exampleCluster), exampleCluster)"
    by (simp add: exampleFleet_def remote_def)
  have machs: "Machines (fleet.Client exampleFleet) exampleCluster
                 = (Inr (machines exampleCluster), exampleCluster)"
    by (simp add: exampleFleet_def remote_def)
  have member: "?fus \<in> set (unitStates exampleCluster)"
    by (simp add: exampleCluster_def)
  have named: "''lost'' = schema_UnitState.Name ?fus"
    by simp
  have dangling: "MachineID ?fus \<notin> schema_Machine.ID ` set (machines exampleCluster)"
    by (simp add: exampleCluster_def)
  show ?thesis
    by (rule GetStatus_machine_missing [OF units found states machs member named dangling])
qed


section \<open>Units that are not scheduled\<close>

text \<open>
  C4. When the Unit collection is fetched and holds a unit of the requested name, and the
  UnitState collection is fetched and holds no record of that name, \<^verbatim>\<open>GetStatus\<close> succeeds
  with an empty Machine sequence. Conversely, whenever \<^verbatim>\<open>GetStatus\<close> returns a status with
  an empty Machine sequence, both collections were fetched, the unit was found and no unit
  state carried the name.
\<close>

theorem GetStatus_empty_Machine:
  "(Units (fleet.Client f) r = (Inr fleetUnits, r1) \<longrightarrow>
    find (\<lambda>fu. name = schema_Unit.Name fu) fleetUnits = Some fu \<longrightarrow>
    UnitStates (fleet.Client f) r1 = (Inr fleetUnitStates, r2) \<longrightarrow>
    filter (\<lambda>fus. name = schema_UnitState.Name fus) fleetUnitStates = [] \<longrightarrow>
      GetStatus ParseIP f name r =
        (Inr \<lparr>Current = CurrentState fu, Desired = DesiredState fu, Machine = []\<rparr>, r2))
   \<and> (GetStatus ParseIP f name r = (Inr status, r') \<longrightarrow> Machine status = [] \<longrightarrow>
        (\<exists>us s1 u uss.
           Units (fleet.Client f) r = (Inr us, s1)
           \<and> find (\<lambda>fu. name = schema_Unit.Name fu) us = Some u
           \<and> UnitStates (fleet.Client f) s1 = (Inr uss, r')
           \<and> filter (\<lambda>fus. name = schema_UnitState.Name fus) uss = []))"
proof (intro conjI impI)
  assume "Units (fleet.Client f) r = (Inr fleetUnits, r1)"
     and "find (\<lambda>fu. name = schema_Unit.Name fu) fleetUnits = Some fu"
     and "UnitStates (fleet.Client f) r1 = (Inr fleetUnitStates, r2)"
     and "filter (\<lambda>fus. name = schema_UnitState.Name fus) fleetUnitStates = []"
  then show "GetStatus ParseIP f name r =
        (Inr \<lparr>Current = CurrentState fu, Desired = DesiredState fu, Machine = []\<rparr>, r2)"
    by (simp add: GetStatus_def)
next
  assume ok: "GetStatus ParseIP f name r = (Inr status, r')" and empty: "Machine status = []"
  obtain ures s1 where u: "Units (fleet.Client f) r = (ures, s1)"
    by (cases "Units (fleet.Client f) r")
  with ok obtain us where us: "ures = Inr us"
    by (cases ures) (auto simp: GetStatus_def)
  with ok u obtain fu' where fu': "find (\<lambda>fu. name = schema_Unit.Name fu) us = Some fu'"
    by (cases "find (\<lambda>fu. name = schema_Unit.Name fu) us") (auto simp: GetStatus_def)
  obtain sres s2 where s: "UnitStates (fleet.Client f) s1 = (sres, s2)"
    by (cases "UnitStates (fleet.Client f) s1")
  with ok u us fu' obtain uss where uss: "sres = Inr uss"
    by (cases sres) (auto simp: GetStatus_def)
  let ?found = "filter (\<lambda>fus. name = schema_UnitState.Name fus) uss"
  from ok u us fu' s uss
  have agg: "GetStatus_aggregate ParseIP f ?found
          \<lparr>Current = CurrentState fu', Desired = DesiredState fu', Machine = []\<rparr> s2
        = (Inr status, r')"
    by (simp add: GetStatus_def)
  from aggregate_length [OF agg] empty have none: "?found = []"
    by simp
  with agg have "s2 = r'" by simp
  with u us fu' s uss none
  show "\<exists>us s1 u uss.
           Units (fleet.Client f) r = (Inr us, s1)
           \<and> find (\<lambda>fu. name = schema_Unit.Name fu) us = Some u
           \<and> UnitStates (fleet.Client f) s1 = (Inr uss, r')
           \<and> filter (\<lambda>fus. name = schema_UnitState.Name fus) uss = []"
    by blast
qed

text \<open>The unit \<open>idle\<close> of the example cluster has no unit state.\<close>

theorem GetStatus_empty_Machine_witness:
  "GetStatus exampleParseIP exampleFleet ''idle'' exampleCluster =
     (Inr \<lparr>Current = ''inactive'', Desired = ''loaded'', Machine = []\<rparr>, exampleCluster)
   \<and> (\<exists>us s1 u uss.
         Units (fleet.Client exampleFleet) exampleCluster = (Inr us, s1)
         \<and> find (\<lambda>fu. ''idle'' = schema_Unit.Name fu) us = Some u
         \<and> UnitStates (fleet.Client exampleFleet) s1 = (Inr uss, exampleCluster)
         \<and> filter (\<lambda>fus. ''idle'' = schema_UnitState.Name fus) uss = [])"
proof -
  note inst = GetStatus_empty_Machine [of exampleFleet exampleCluster "units exampleCluster"
      exampleCluster "''idle''" "units exampleCluster ! 1" "unitStates exampleCluster"
      exampleCluster exampleParseIP
      "\<lparr>Current = ''inactive'', Desired = ''loaded'', Machine = []\<rparr>" exampleCluster]
  from inst [THEN conjunct1]
  have res: "GetStatus exampleParseIP exampleFleet ''idle'' exampleCluster =
     (Inr \<lparr>Current = ''inactive'', Desired = ''loaded'', Machine = []\<rparr>, exampleCluster)"
    by (simp add: exampleFleet_def remote_def exampleCluster_def)
  from inst [THEN conjunct2] res show ?thesis
    by simp
qed

section \<open>Socket endpoints\<close>

text \<open>
  C5. For an endpoint with scheme \<open>unix\<close> or \<open>file\<close> and a non-empty host, \<^verbatim>\<open>NewFleet\<close>
  returns the masked error about the host and the scheme, whatever the HTTP client and the
  library constructor are, and leaves the outside world as it was: the constructor of the
  HTTP API client is not reached, no transport is bound, nothing is dialled.
\<close>

theorem NewFleet_socket_with_host:
  assumes "Scheme (Endpoint config) = ''unix'' \<or> Scheme (Endpoint config) = ''file''"
      and "Host (Endpoint config) \<noteq> []"
  shows "NewFleet NewHTTPClient config w =
           (Inl (maskAny (Errorf ''unable to connect to host %q with scheme %q''
                   [Host (Endpoint config), Scheme (Endpoint config)])), w)"
  using assms by (auto simp: NewFleet_def)

text \<open>The endpoint \<^verbatim>\<open>unix://var/run/fleet.sock\<close>, whose host is \<open>var\<close>.\<close>

theorem NewFleet_socket_with_host_witness:
  "NewFleet exampleNewHTTPClient
     (exampleConfig\<lparr>Endpoint := \<lparr>Scheme = ''unix'', Host = ''var'', Path = ''/run/fleet.sock''\<rparr>\<rparr>) 0 =
     (Inl (maskAny (Errorf ''unable to connect to host %q with scheme %q'' [''var'', ''unix''])), 0)"
proof -
  let ?config = "exampleConfig\<lparr>Endpoint := \<lparr>Scheme = ''unix'', Host = ''var'', Path = ''/run/fleet.sock''\<rparr>\<rparr>"
  have scheme: "Scheme (Endpoint ?config) = ''unix'' \<or> Scheme (Endpoint ?config) = ''file''"
    by simp
  have host: "Host (Endpoint ?config) \<noteq> []"
    by simp
  from NewFleet_socket_with_host [OF scheme host, of exampleNewHTTPClient 0]
  show ?thesis by simp
qed

text \<open>
  C6, as stated, at the configuration with the endpoint \<^verbatim>\<open>unix:///var/run/fleet.sock\<close> and
  no HTTP client: the scheme is \<open>unix\<close> and the host is empty, yet construction does not
  succeed, since the transport is written through the nil client pointer.
\<close>

theorem NewFleet_socket_counterexample:
  "Scheme (Endpoint (exampleConfig\<lparr>Config.Client := None\<rparr>)) = ''unix''
   \<and> Host (Endpoint (exampleConfig\<lparr>Config.Client := None\<rparr>)) = []
   \<and> NewFleet exampleNewHTTPClient (exampleConfig\<lparr>Config.Client := None\<rparr>) 0 =
       (Inl (Panic ''invalid memory address or nil pointer dereference''), 0)"
  by (simp add: NewFleet_def exampleConfig_def)

text \<open>
  C6, amended. For an endpoint with scheme \<open>unix\<close> or \<open>file\<close> and an empty host, a
  configuration that carries an HTTP client, and a library constructor that reports no
  error, \<^verbatim>\<open>NewFleet\<close> succeeds. The transport bound to the HTTP client has a dial function
  that answers every network and address with a unix-domain connection to the endpoint's
  original path; the endpoint kept by the client has its path cleared, the scheme \<open>http\<close>
  and the host \<open>domain-sock\<close>, and that endpoint is the one the library constructor gets.
\<close>

theorem NewFleet_socket:
  assumes "Scheme (Endpoint config) = ''unix'' \<or> Scheme (Endpoint config) = ''file''"
      and "Host (Endpoint config) = []"
      and "Config.Client config = Some httpClient"
      and "NewHTTPClient
             (httpClient\<lparr>Transport :=
                Some (http_Transport (\<lambda>s t. net_Dial ''unix'' (Path (Endpoint config))))\<rparr>)
             ((Endpoint config)\<lparr>Path := [], Scheme := ''http'', Host := ''domain-sock''\<rparr>) w
           = (Inr client, w')"
  shows "\<exists>dial. NewFleet NewHTTPClient config w =
           (Inr \<lparr>Config =
                   \<lparr>Config.Client = Some (httpClient\<lparr>Transport := Some (http_Transport dial)\<rparr>),
                    Endpoint = (Endpoint config)\<lparr>Path := [], Scheme := ''http'',
                                 Host := ''domain-sock''\<rparr>\<rparr>,
                 Client = client\<rparr>, w')
         \<and> (\<forall>network address. dial network address = net_Dial ''unix'' (Path (Endpoint config)))"
proof -
  let ?dial = "\<lambda>(s::string) (t::string). net_Dial ''unix'' (Path (Endpoint config))"
  from assms have "NewFleet NewHTTPClient config w =
           (Inr \<lparr>Config =
                   \<lparr>Config.Client = Some (httpClient\<lparr>Transport := Some (http_Transport ?dial)\<rparr>),
                    Endpoint = (Endpoint config)\<lparr>Path := [], Scheme := ''http'',
                                 Host := ''domain-sock''\<rparr>\<rparr>,
                 Client = client\<rparr>, w')"
    by (auto simp: NewFleet_def Let_def)
  then show ?thesis by blast
qed

text \<open>The default endpoint \<^verbatim>\<open>unix:///var/run/fleet.sock\<close>.\<close>

theorem NewFleet_socket_witness:
  "\<exists>dial. NewFleet exampleNewHTTPClient exampleConfig 0 =
     (Inr \<lparr>Config =
             \<lparr>Config.Client = Some \<lparr>Transport = Some (http_Transport dial)\<rparr>,
              Endpoint = \<lparr>Scheme = ''http'', Host = ''domain-sock'', Path = []\<rparr>\<rparr>,
           Client = remote\<rparr>, 1)
     \<and> dial ''tcp'' ''domain-sock:80'' = net_Dial ''unix'' ''/var/run/fleet.sock''"
proof -
  have scheme: "Scheme (Endpoint exampleConfig) = ''unix'' \<or> Scheme (Endpoint exampleConfig) = ''file''"
    by (simp add: exampleConfig_def)
  have host: "Host (Endpoint exampleConfig) = []"
    by (simp add: exampleConfig_def)
  have client: "Config.Client exampleConfig = Some \<lparr>Transport = None\<rparr>"
    by (simp add: exampleConfig_def)
  have new: "exampleNewHTTPClient
             (\<lparr>Transport = None\<rparr>\<lparr>Transport :=
                Some (http_Transport (\<lambda>s t. net_Dial ''unix'' (Path (Endpoint exampleConfig))))\<rparr>)
             ((Endpoint exampleConfig)\<lparr>Path := [], Scheme := ''http'', Host := ''domain-sock''\<rparr>) 0
           = (Inr remote, 1)"
    unfolding exampleNewHTTPClient_def by simp
  have ep: "(Endpoint exampleConfig)\<lparr>Path := [], Scheme := ''http'', Host := ''domain-sock''\<rparr>
              = \<lparr>Scheme = ''http'', Host = ''domain-sock'', Path = []\<rparr>"
    by (simp add: exampleConfig_def)
  have path: "Path (Endpoint exampleConfig) = ''/var/run/fleet.sock''"
    by (simp add: exampleConfig_def)
  have upd: "\<lparr>Transport = None\<rparr>\<lparr>Transport := Some t\<rparr> = \<lparr>Transport = Some t\<rparr>" for t
    by simp
  from NewFleet_socket [where NewHTTPClient = exampleNewHTTPClient and config = exampleConfig,
      OF scheme host client new]
  have "\<exists>dial. NewFleet exampleNewHTTPClient exampleConfig 0 =
     (Inr \<lparr>Config =
             \<lparr>Config.Client = Some \<lparr>Transport = Some (http_Transport dial)\<rparr>,
              Endpoint = \<lparr>Scheme = ''http'', Host = ''domain-sock'', Path = []\<rparr>\<rparr>,
           Client = remote\<rparr>, 1)
     \<and> (\<forall>network address. dial network address = net_Dial ''unix'' ''/var/run/fleet.sock'')"
    unfolding ep path upd .
  then show ?thesis
    by (elim exE conjE) (rule exI, erule conjI, erule allE, erule allE, assumption)
qed

section \<open>Start and Stop\<close>

text \<open>
  C7. \<open>desired\<close> reads the desired state of a unit off the remote state; the scheduler is
  only required to store what a successful \<^verbatim>\<open>SetUnitTargetState\<close> writes. \<^verbatim>\<open>Start\<close> succeeds
  exactly when the write of \<open>launched\<close> does, and \<^verbatim>\<open>Stop\<close> exactly when the write of
  \<open>loaded\<close> does, each ending in the remote state its write produced. So when the two writes
  go through, \<^verbatim>\<open>Start\<close> and then \<^verbatim>\<open>Stop\<close> succeed, the unit's desired state is \<open>launched\<close> in
  between and \<open>loaded\<close>, not \<open>inactive\<close>, at the end; and whenever \<^verbatim>\<open>Start\<close> and then \<^verbatim>\<open>Stop\<close>
  succeed, that is where they leave the unit.
\<close>

theorem Start_then_Stop:
  assumes "\<forall>n target s s'. SetUnitTargetState (fleet.Client f) n target s = (None, s')
             \<longrightarrow> desired s' n = Some target"
  shows "((Start f name r = (None, r1))
            = (SetUnitTargetState (fleet.Client f) name ''launched'' r = (None, r1)))
         \<and> ((Stop f name r1 = (None, r2))
            = (SetUnitTargetState (fleet.Client f) name ''loaded'' r1 = (None, r2)))
         \<and> (SetUnitTargetState (fleet.Client f) name ''launched'' r = (None, r1) \<longrightarrow>
            SetUnitTargetState (fleet.Client f) name ''loaded'' r1 = (None, r2) \<longrightarrow>
              Start f name r = (None, r1) \<and> Stop f name r1 = (None, r2)
              \<and> desired r1 name = Some ''launched''
              \<and> desired r2 name = Some ''loaded''
              \<and> desired r2 name \<noteq> Some ''inactive'')
         \<and> (Start f name r = (None, r1) \<longrightarrow> Stop f name r1 = (None, r2) \<longrightarrow>
              desired r1 name = Some ''launched''
              \<and> desired r2 name = Some ''loaded''
              \<and> desired r2 name \<noteq> Some ''inactive'')"
proof -
  have start: "(Start f name r = (None, r1))
                 = (SetUnitTargetState (fleet.Client f) name ''launched'' r = (None, r1))"
    by (auto simp: Start_def unitStateLaunched_def split: prod.splits option.splits)
  have stop: "(Stop f name r1 = (None, r2))
                = (SetUnitTargetState (fleet.Client f) name ''loaded'' r1 = (None, r2))"
    by (auto simp: Stop_def unitStateLoaded_def split: prod.splits option.splits)
  have launched: "desired r1 name = Some ''launched''"
    if "SetUnitTargetState (fleet.Client f) name ''launched'' r = (None, r1)"
    using assms that by blast
  have loaded: "desired r2 name = Some ''loaded''"
    if "SetUnitTargetState (fleet.Client f) name ''loaded'' r1 = (None, r2)"
    using assms that by blast
  show ?thesis
    using start stop launched loaded by simp
qed

text \<open>
  The unit \<open>idle\<close> on the example scheduler: its desired state is \<open>loaded\<close> before,
  \<open>launched\<close> after \<^verbatim>\<open>Start\<close> and \<open>loaded\<close> again after \<^verbatim>\<open>Stop\<close>.
\<close>

theorem Start_then_Stop_witness:
  "desiredOf exampleCluster ''idle'' = Some ''loaded''
   \<and> fst (Start exampleFleet ''idle'' exampleCluster) = None
   \<and> desiredOf (snd (Start exampleFleet ''idle'' exampleCluster)) ''idle'' = Some ''launched''
   \<and> fst (Stop exampleFleet ''idle'' (snd (Start exampleFleet ''idle'' exampleCluster))) = None
   \<and> desiredOf (snd (Stop exampleFleet ''idle'' (snd (Start exampleFleet ''idle'' exampleCluster))))
        ''idle'' = Some ''loaded''"
proof -
  let ?c = "fleet.Client exampleFleet"
  let ?r1 = "snd (SetUnitTargetState ?c ''idle'' ''launched'' exampleCluster)"
  let ?r2 = "snd (SetUnitTargetState ?c ''idle'' ''loaded'' ?r1)"
  have contract: "\<forall>n target s s'. SetUnitTargetState ?c n target s = (None, s')
             \<longrightarrow> desiredOf s' n = Some target"
    by (auto simp: exampleFleet_def dest: remote_SetUnitTargetState)
  have "fst (SetUnitTargetState ?c ''idle'' ''launched'' exampleCluster) = None"
    by (simp add: exampleFleet_def remote_def exampleCluster_def)
  then have write1: "SetUnitTargetState ?c ''idle'' ''launched'' exampleCluster = (None, ?r1)"
    by (simp add: prod_eq_iff)
  have "fst (SetUnitTargetState ?c ''idle'' ''loaded'' ?r1) = None"
    by (simp add: exampleFleet_def remote_def exampleCluster_def)
  then have write2: "SetUnitTargetState ?c ''idle'' ''loaded'' ?r1 = (None, ?r2)"
    by (simp add: prod_eq_iff)
  have before: "desiredOf exampleCluster ''idle'' = Some ''loaded''"
    by (simp add: desiredOf_def exampleCluster_def)
  from Start_then_Stop [where f = exampleFleet and desired = desiredOf, OF contract,
      of "''idle''" exampleCluster ?r1 ?r2, THEN conjunct2, THEN conjunct2, THEN conjunct1,
      rule_format, OF write1 write2]
  have "Start exampleFleet ''idle'' exampleCluster = (None, ?r1)"
    and "Stop exampleFleet ''idle'' ?r1 = (None, ?r2)"
    and "desiredOf ?r1 ''idle'' = Some ''launched''"
    and "desiredOf ?r2 ''idle'' = Some ''loaded''"
    by blast+
  with before show ?thesis
    by simp
qed

section \<open>Fetching the Machine collection once\<close>

text \<open>
  C8, as stated, at the unit \<open>idle\<close> of the example cluster with the machine listing out of
  reach: the listing answers the same in every fetch and leaves the remote state as it is,
  \<open>GetStatus\<close> never asks for it and returns the status with an empty Machine sequence,
  while the variant that fetches once per call fails with the error of the fetch.
\<close>

theorem GetStatus_fetch_once_counterexample:
  "GetStatus exampleParseIP exampleFleet_machines_down ''idle'' exampleCluster
     = (Inr \<lparr>Current = ''inactive'', Desired = ''loaded'', Machine = []\<rparr>, exampleCluster)
   \<and> GetStatus_fetch_once exampleParseIP exampleFleet_machines_down ''idle'' exampleCluster
     = (Inl (maskAny (External ''connection refused'')), exampleCluster)
   \<and> Machines (fleet.Client exampleFleet_machines_down) exampleCluster
     = (Inl (External ''connection refused''), exampleCluster)"
  by (simp add: GetStatus_def GetStatus_fetch_once_def exampleFleet_machines_down_def
        remote_machines_down_def remote_def exampleCluster_def)

text \<open>
  C8, amended. Suppose a Machine fetch leaves the remote state as it is, so that every fetch
  of one call has the same answer, and suppose the Machine fetch does not fail in a call
  that finds no unit state of the name (there \<open>GetStatus\<close> returns an empty Machine sequence
  without fetching). Then \<open>GetStatus\<close> and the variant that fetches once per call return the
  same status or errors of the same cause, and end in the same remote state.
\<close>

theorem GetStatus_fetch_once_equivalent:
  assumes readonly: "\<forall>s. snd (Machines (fleet.Client f) s) = s"
      and reachable: "\<forall>status s. GetStatus ParseIP f name r = (Inr status, s) \<and> Machine status = []
                         \<longrightarrow> (\<exists>machineStates. fst (Machines (fleet.Client f) s) = Inr machineStates)"
  shows "classified (fst (GetStatus_fetch_once ParseIP f name r))
           = classified (fst (GetStatus ParseIP f name r))
         \<and> snd (GetStatus_fetch_once ParseIP f name r) = snd (GetStatus ParseIP f name r)"
proof (cases "Units (fleet.Client f) r")
  case (Pair ures r1)
  note units = Pair
  show ?thesis
  proof (cases ures)
    case (Inl err)
    with units show ?thesis
      by (simp add: GetStatus_def GetStatus_fetch_once_def)
  next
    case (Inr fleetUnits)
    note ures = Inr
    show ?thesis
    proof (cases "find (\<lambda>fu. name = schema_Unit.Name fu) fleetUnits")
      case None
      with units ures show ?thesis
        by (simp add: GetStatus_def GetStatus_fetch_once_def)
    next
      case (Some fu)
      note found = Some
      show ?thesis
      proof (cases "UnitStates (fleet.Client f) r1")
        case (Pair sres r2)
        note states = Pair
        show ?thesis
        proof (cases sres)
          case (Inl err)
          with units ures found states show ?thesis
            by (simp add: GetStatus_def GetStatus_fetch_once_def)
        next
          case (Inr fleetUnitStates)
          note sres = Inr
          let ?found = "filter (\<lambda>fus. name = schema_UnitState.Name fus) fleetUnitStates"
          let ?acc = "\<lparr>Current = CurrentState fu, Desired = DesiredState fu, Machine = []\<rparr>"
          have naive: "GetStatus ParseIP f name r = GetStatus_aggregate ParseIP f ?found ?acc r2"
            using units ures found states sres by (simp add: GetStatus_def)
          obtain mres where machs: "Machines (fleet.Client f) r2 = (mres, r2)"
            using readonly by (metis prod.collapse)
          show ?thesis
          proof (cases mres)
            case (Inr machineStates)
            with machs have m: "Machines (fleet.Client f) r2 = (Inr machineStates, r2)"
              by simp
            have "GetStatus_fetch_once ParseIP f name r
                    = (aggregate_fetched ParseIP machineStates ?found ?acc, r2)"
              using units ures found states sres m by (simp add: GetStatus_fetch_once_def)
            with naive aggregate_as_fetched [OF m, of ParseIP ?found ?acc]
            show ?thesis by simp
          next
            case (Inl err)
            with machs have m: "Machines (fleet.Client f) r2 = (Inl err, r2)"
              by simp
            have once: "GetStatus_fetch_once ParseIP f name r = (Inl (maskAny err), r2)"
              using units ures found states sres m by (simp add: GetStatus_fetch_once_def)
            show ?thesis
            proof (cases ?found)
              case Nil
              with naive have "GetStatus ParseIP f name r = (Inr ?acc, r2)"
                by simp
              with reachable have "\<exists>machineStates. fst (Machines (fleet.Client f) r2) = Inr machineStates"
                by simp
              with m show ?thesis by simp
            next
              case (Cons fus rest)
              with naive m have "GetStatus ParseIP f name r = (Inl (maskAny (maskAny err)), r2)"
                by (simp add: ipFromUnitState_def)
              with once show ?thesis
                by (simp add: classified_def Cause_maskAny)
            qed
          qed
        qed
      qed
    qed
  qed
qed

text \<open>The unit \<open>idle\<close> of the example cluster, with the machine listing in reach.\<close>

theorem GetStatus_fetch_once_equivalent_witness:
  "GetStatus_fetch_once exampleParseIP exampleFleet ''idle'' exampleCluster
     = (Inr \<lparr>Current = ''inactive'', Desired = ''loaded'', Machine = []\<rparr>, exampleCluster)
   \<and> classified (fst (GetStatus_fetch_once exampleParseIP exampleFleet ''idle'' exampleCluster))
     = classified (fst (GetStatus exampleParseIP exampleFleet ''idle'' exampleCluster))
   \<and> snd (GetStatus_fetch_once exampleParseIP exampleFleet ''idle'' exampleCluster)
     = snd (GetStatus exampleParseIP exampleFleet ''idle'' exampleCluster)"
proof -
  have readonly: "\<forall>s. snd (Machines (fleet.Client exampleFleet) s) = s"
    by (simp add: exampleFleet_def remote_def)
  have reachable:
    "\<forall>status s. GetStatus exampleParseIP exampleFleet ''idle'' exampleCluster = (Inr status, s)
                   \<and> Machine status = []
       \<longrightarrow> (\<exists>machineStates. fst (Machines (fleet.Client exampleFleet) s) = Inr machineStates)"
    by (simp add: exampleFleet_def remote_def)
  have once: "GetStatus_fetch_once exampleParseIP exampleFleet ''idle'' exampleCluster
     = (Inr \<lparr>Current = ''inactive'', Desired = ''loaded'', Machine = []\<rparr>, exampleCluster)"
    by (simp add: GetStatus_fetch_once_def exampleFleet_def remote_def exampleCluster_def)
  from GetStatus_fetch_once_equivalent [OF readonly reachable] once
  show ?thesis by blast
qed

section \<open>Submitting a unit file that does not parse\<close>

text \<open>
  C9. When the unit-file parser rejects the content, \<^verbatim>\<open>Submit\<close> returns the masked parse
  error and the remote state it was called in. This holds for every client, also one whose
  \<^verbatim>\<open>CreateUnit\<close> would change the remote state or fail: the create-unit request is not
  issued.
\<close>

theorem Submit_parse_error:
  assumes "NewUnitFile content = Inl err"
  shows "Submit NewUnitFile MapUnitFileToSchemaUnitOptions f name content r
           = (Some (maskAny err), r)"
  using assms by (simp add: Submit_def)

text \<open>The empty unit file on the example scheduler.\<close>

theorem Submit_parse_error_witness:
  "Submit exampleNewUnitFile exampleMapUnitFile exampleFleet ''web'' [] exampleCluster
     = (Some (maskAny (External ''unable to find section'')), exampleCluster)"
proof -
  have "exampleNewUnitFile [] = Inl (External ''unable to find section'')"
    by (simp add: exampleNewUnitFile_def)
  from Submit_parse_error [where NewUnitFile = exampleNewUnitFile, OF this]
  show ?thesis .
qed

section \<open>Machine addresses\<close>




end
